theory Spec2Isabelle
  imports Complex_Main
begin

section \<open>The users service of stdservices: data model\<close>

text \<open>
  The development follows \<^verbatim>\<open>users/users.go\<close>. An instant is an integer counting
  nanoseconds since the Unix epoch; \<^verbatim>\<open>UTC()\<close> changes the location of an instant only and
  is the identity here. The readings of the clock are instants that \<^verbatim>\<open>time.Time\<close> holds
  without overflow. An instant built by \<^verbatim>\<open>time.Unix\<close> from a number of seconds that the
  caller supplies is not: \<^verbatim>\<open>time.Time\<close> keeps the seconds since the year 1 in an
  \<^verbatim>\<open>int64\<close>, and the sum that \<^verbatim>\<open>time.Unix\<close> forms wraps around.
\<close>

type_synonym time = int

definition second :: int where
  "second = 1000000000"

definition hour :: int where
  "hour = 3600 * second"

definition int64 :: "int \<Rightarrow> int" where
  \<comment> \<open>the value of a 64-bit signed integer after an operation whose exact result is \<open>x\<close>\<close>
  "int64 x = (x + 2 ^ 63) mod 2 ^ 64 - 2 ^ 63"

definition unixToInternal :: int where
  \<comment> \<open>seconds from the year 1 to 1970, the constant of package \<^verbatim>\<open>time\<close>\<close>
  "unixToInternal = 62135596800"

definition time_Unix :: "int \<Rightarrow> time" where
  \<comment> \<open>\<^verbatim>\<open>time.Unix(sec, 0)\<close>: the instant whose seconds since the year 1 are the
      64-bit sum \<^verbatim>\<open>sec + unixToInternal\<close>\<close>
  "time_Unix sec = (int64 (sec + unixToInternal) - unixToInternal) * second"

definition Unix :: "time \<Rightarrow> int" where
  \<comment> \<open>\<^verbatim>\<open>t.Unix()\<close>: whole seconds since the epoch\<close>
  "Unix t = t div second"

definition Add :: "time \<Rightarrow> int \<Rightarrow> time" where
  "Add t d = t + d"

definition Before :: "time \<Rightarrow> time \<Rightarrow> bool" where
  "Before t u = (t < u)"

text \<open>
  Modelled from the spec: the sentinel errors of the package (\<^verbatim>\<open>errAlreadyExists\<close> and the
  others) are declared in a file that is not among the sources. Section 7 of the spec lists
  AlreadyExists, NotFound, InvalidCredentials, InvalidRole, TokenEmpty, TokenInvalid and
  TokenExpired as distinct kinds, so each sentinel is a constructor of its own, under the
  name \<^verbatim>\<open>users.go\<close> uses; \<open>ErrDuplicateRecord\<close> is the repository's.

  The other constructors are Go's ways of making an error. \<^verbatim>\<open>fmt.Errorf\<close> with the verb
  \<^verbatim>\<open>%w\<close> wraps its argument (\<open>Errorf_w\<close>), with \<^verbatim>\<open>%s\<close> it keeps the text only
  and cuts the chain (\<open>Errorf_s\<close>); both carry the format's prefix. \<open>errors_New\<close> is
  \<^verbatim>\<open>errors.New\<close>, a \<^verbatim>\<open>fmt.Errorf\<close> without an error argument, or an error a
  collaborator made. \<open>ValidationError\<close> is the jwt library's error with its \<^verbatim>\<open>Inner\<close>
  field.
\<close>

datatype error =
    errAlreadyExists
  | errNotFound
  | errPasswordInvalid
  | errRoleInvalid
  | errTokenEmpty
  | errTokenExpired
  | errTokenInvalid
  | ErrDuplicateRecord
  | errors_New string
  | Errorf_s string error
  | Errorf_w string error
  | ValidationError error

fun errors_Is :: "error \<Rightarrow> error \<Rightarrow> bool" where
  "errors_Is (Errorf_w p e) target = (Errorf_w p e = target \<or> errors_Is e target)"
| "errors_Is e target = (e = target)"

text \<open>A call either returns or panics; a panic unwinds through the callers.\<close>

datatype 'a outcome = Returns 'a | Panics string

record CreateUserInput =
  in_Fullname :: string
  in_Username :: string
  in_Birthdate :: time
  in_Email :: string
  in_Password :: string

text \<open>\<^verbatim>\<open>repository.User\<close>, the stored form of a user.\<close>

record repository_User =
  r_ID :: string
  r_Fullname :: string
  r_Username :: string
  r_Birthdate :: time
  r_Email :: string
  r_EmailVerified :: bool
  r_PasswordHash :: string
  r_Role :: string
  r_CreatedAt :: time
  r_UpdatedAt :: time

text \<open>\<^verbatim>\<open>repository.EmailVerification\<close>.\<close>

record EmailVerification =
  ev_Code :: string
  ev_UserID :: string
  ev_CreatedAt :: time
  ev_ExpiresAt :: time

text \<open>
  Modelled from the spec: the type \<^verbatim>\<open>role\<close> is a string type whose constants and
  \<^verbatim>\<open>validate\<close> method are declared outside the sources. By the spec the role is one of
  \<open>user\<close> and \<open>admin\<close>, and validation fails for every other value.
\<close>

type_synonym role = string

definition RoleUser :: role where
  "RoleUser = ''user''"

definition RoleAdmin :: role where
  "RoleAdmin = ''admin''"

definition role_validate :: "role \<Rightarrow> error option" where
  "role_validate r = (if r = RoleUser \<or> r = RoleAdmin then None else Some (errors_New ''invalid role''))"

text \<open>The domain record \<^verbatim>\<open>User\<close>, with the fields \<^verbatim>\<open>newUserFromRepository\<close> fills.\<close>

record User =
  u_ID :: string
  u_Fullname :: string
  u_Username :: string
  u_Birthdate :: time
  u_Email :: string
  u_EmailVerified :: bool
  u_Role :: role
  u_CreatedAt :: time
  u_UpdatedAt :: time

record VerifyTokenResponse =
  v_ID :: string
  v_Username :: string
  v_Role :: string

section \<open>Collaborators\<close>

text \<open>
  The repository, the mailer and the logger are interfaces; the service sees their answers
  only. Their state, together with the clock and the random sources of the process, is a
  value of an arbitrary type \<open>'s\<close>; every method takes it and returns it updated.
  \<open>Insert\<close> and the selects answer with an error, or with a record (for the selects
  possibly nil, which means not found).
\<close>

record 's repo =
  Insert :: "repository_User \<Rightarrow> 's \<Rightarrow> (error + repository_User) \<times> 's"
  SelectByID :: "string \<Rightarrow> 's \<Rightarrow> (error + repository_User option) \<times> 's"
  SelectByEmail :: "string \<Rightarrow> 's \<Rightarrow> (error + repository_User option) \<times> 's"
  DeleteByID :: "string \<Rightarrow> 's \<Rightarrow> error option \<times> 's"
  InsertEmailVerification :: "EmailVerification \<Rightarrow> 's \<Rightarrow> error option \<times> 's"

text \<open>
  \<^verbatim>\<open>DefaultService\<close>. The field \<open>emailer\<close> holds the \<^verbatim>\<open>Send\<close> method of the
  configured mailer, \<open>None\<close> when the interface value is nil. The logger has no answer
  the service reads; its calls appear in the trace below.
\<close>

record 's DefaultService =
  jwtSigningKey :: string
  emailVerificationSenderName :: string
  emailVerificationSenderAddr :: string
  emailVerificationEndpoint :: string
  emailer :: "(string \<Rightarrow> string \<Rightarrow> string \<Rightarrow> 's \<Rightarrow> error option \<times> 's) option"
  repo :: "'s repo"

text \<open>
  Decoded JSON values: a string, a number, anything else. A number is a \<^verbatim>\<open>float64\<close>; JSON
  has neither infinities nor NaN, so its value is a rational number (every rational stands
  for itself here, also those a \<^verbatim>\<open>float64\<close> cannot hold).
\<close>

datatype json = JString string | JNumber rat | JOther

text \<open>
  The three segments of a compact token after the library has split and decoded them:
  the header's \<^verbatim>\<open>alg\<close> entry, the claims as a map, the text that was signed (the first two
  segments as they stand in the token) and the signature.
\<close>

record jwt_parts =
  hdr_alg :: "json option"
  payload :: "string \<Rightarrow> json option"
  signing_input :: string
  signature :: string

text \<open>
  What the service calls and is not part of \<^verbatim>\<open>users.go\<close>: the validators of
  \<^verbatim>\<open>pkg/validate\<close> and \<^verbatim>\<open>CreateUserInput.validate\<close> (pure), bcrypt, the uuid generator,
  the clock, the process-wide random source, \<^verbatim>\<open>path.Join\<close>, and the text-level parts of
  the jwt library (encoding of the signing string, the MAC, splitting and decoding).
  \<open>rand_sample\<close> is the sample \<^verbatim>\<open>Intn\<close> accepts before reducing it.
  \<open>int64_out_of_range\<close> is what the platform gives when a \<^verbatim>\<open>float64\<close> too large for an
  \<^verbatim>\<open>int64\<close> is converted to one: the language leaves that value to the implementation.
\<close>

record 's runtime =
  input_validate :: "CreateUserInput \<Rightarrow> error option"
  validate_ID :: "string \<Rightarrow> error option"
  validate_Email :: "string \<Rightarrow> error option"
  validate_Password :: "string \<Rightarrow> error option"
  bcrypt_GenerateFromPassword :: "string \<Rightarrow> 's \<Rightarrow> (error + string) \<times> 's"
  bcrypt_CompareHashAndPassword :: "string \<Rightarrow> string \<Rightarrow> error option"
  uuid_NewString :: "'s \<Rightarrow> string \<times> 's"
  time_Now :: "'s \<Rightarrow> time \<times> 's"
  rand_sample :: "'s \<Rightarrow> nat \<times> 's"
  path_Join :: "string \<Rightarrow> string \<Rightarrow> string"
  jwt_SigningString :: "string \<Rightarrow> (string \<times> json) list \<Rightarrow> string"
  jwt_Sign :: "string \<Rightarrow> string \<Rightarrow> string \<Rightarrow> string"
  jwt_split :: "string \<Rightarrow> jwt_parts option"
  int64_out_of_range :: "rat \<Rightarrow> int"

definition float_trunc :: "rat \<Rightarrow> int" where
  \<comment> \<open>the whole part of a number, the fraction cut off towards zero\<close>
  "float_trunc x = (if 0 \<le> x then \<lfloor>x\<rfloor> else \<lceil>x\<rceil>)"

definition float_int64 :: "'s runtime \<Rightarrow> rat \<Rightarrow> int" where
  \<comment> \<open>the conversion \<^verbatim>\<open>int64(x)\<close> of a \<^verbatim>\<open>float64\<close>\<close>
  "float_int64 rt x =
     (if - (2 ^ 63) \<le> float_trunc x \<and> float_trunc x < 2 ^ 63 then float_trunc x
      else int64 (int64_out_of_range rt x))"

text \<open>
  The calls the service makes to the repository, the mailer and the logger, in order.
  The trace is an observation added to the model: it lets a statement say that a record was
  handed to the repository, or that no mail was attempted.
\<close>

datatype event =
    Insert_call repository_User
  | SelectByID_call string
  | SelectByEmail_call string
  | DeleteByID_call string
  | InsertEmailVerification_call EmailVerification
  | Send_call string string string
  | logger_Error string string error

record 's world =
  ext :: 's
  trace :: "event list"

definition run :: "('s \<Rightarrow> 'a \<times> 's) \<Rightarrow> 's world \<Rightarrow> 'a \<times> 's world" where
  "run f w = (case f (ext w) of (a, x) \<Rightarrow> (a, w\<lparr>ext := x\<rparr>))"

definition emit :: "event \<Rightarrow> 's world \<Rightarrow> 's world" where
  "emit e w = w\<lparr>trace := trace w @ [e]\<rparr>"

definition call :: "event \<Rightarrow> ('s \<Rightarrow> 'a \<times> 's) \<Rightarrow> 's world \<Rightarrow> 'a \<times> 's world" where
  "call e f w = run f (emit e w)"

section \<open>Email verification\<close>

definition chars :: string where
  "chars = ''abcdefghijklmnopqrstuvwxyz0123456789''"

definition Intn :: "'s runtime \<Rightarrow> nat \<Rightarrow> 's world \<Rightarrow> nat \<times> 's world" where
  \<comment> \<open>\<^verbatim>\<open>seededRand.Intn(n)\<close> for positive \<open>n\<close>: the accepted sample modulo \<open>n\<close>\<close>
  "Intn rt n w = (case run (rand_sample rt) w of (v, w') \<Rightarrow> (v mod n, w'))"

fun randString :: "'s runtime \<Rightarrow> nat \<Rightarrow> 's world \<Rightarrow> string \<times> 's world" where
  "randString rt 0 w = ([], w)"
| "randString rt (Suc n) w =
     (case Intn rt (length chars) w of (k, w1) \<Rightarrow>
        (case randString rt n w1 of (rest, w2) \<Rightarrow> (chars ! k # rest, w2)))"

definition verification_body :: "'s runtime \<Rightarrow> 's DefaultService \<Rightarrow> string \<Rightarrow> string \<Rightarrow> string" where
  \<comment> \<open>the \<^verbatim>\<open>fmt.Sprintf\<close> of \<^verbatim>\<open>SendEmailVerification\<close>\<close>
  "verification_body rt s to code =
     ''From: '' @ emailVerificationSenderAddr s @ [CHR 0x0D, CHR 0x0A] @
     ''To: '' @ to @ [CHR 0x0D, CHR 0x0A] @
     ''Subject: '' @ emailVerificationSenderName s @ '' Email Verification'' @
       [CHR 0x0D, CHR 0x0A, CHR 0x0D, CHR 0x0A] @
     ''Please click the following link to verify your email address: '' @
       path_Join rt (emailVerificationEndpoint s) code @ [CHR 0x0D, CHR 0x0A]"

definition newEmailVerification ::
  "'s runtime \<Rightarrow> string \<Rightarrow> 's world \<Rightarrow> EmailVerification \<times> 's world" where
  \<comment> \<open>the first statements of \<^verbatim>\<open>SendEmailVerification\<close>: the code and the record \<^verbatim>\<open>in\<close>,
      with one reading of the clock for each of its two instants\<close>
  "newEmailVerification rt userID w =
     (case randString rt 6 w of (code, w1) \<Rightarrow>
      (case run (time_Now rt) w1 of (t1, w2) \<Rightarrow>
      (case run (time_Now rt) w2 of (t2, w3) \<Rightarrow>
        (\<lparr>ev_Code = code, ev_UserID = userID,
          ev_CreatedAt = t1, ev_ExpiresAt = Add t2 (hour * 24)\<rparr>, w3))))"

definition SendEmailVerification ::
  "'s runtime \<Rightarrow> 's DefaultService \<Rightarrow> string \<Rightarrow> string \<Rightarrow> string \<Rightarrow> 's world
     \<Rightarrow> error option outcome \<times> 's world" where
  "SendEmailVerification rt s userID username to w =
     (case newEmailVerification rt userID w of (inp, w3) \<Rightarrow>
        (case call (InsertEmailVerification_call inp) (InsertEmailVerification (repo s) inp) w3 of
           (Some err, w4) \<Rightarrow>
             (Returns (Some (Errorf_s ''could not insert email verification: '' err)), w4)
         | (None, w4) \<Rightarrow>
             let body = verification_body rt s to (ev_Code inp) in
             (case emailer s of
                None \<Rightarrow> (Panics ''invalid memory address or nil pointer dereference'', w4)
              | Some send \<Rightarrow>
                 (case call (Send_call (emailVerificationSenderName s) to body)
                         (send (emailVerificationSenderName s) to body) w4 of
                    (Some err, w5) \<Rightarrow>
                      (Returns (Some (Errorf_s ''could not send email verification: '' err)), w5)
                  | (None, w5) \<Rightarrow> (Returns None, w5)))))"

section \<open>Account creation and lookup\<close>

definition newUserFromRepository :: "repository_User \<Rightarrow> error + User" where
  "newUserFromRepository user =
     (if r_Role user = ''user'' \<or> r_Role user = ''admin'' then
        Inr \<lparr>u_ID = r_ID user, u_Fullname = r_Fullname user, u_Username = r_Username user,
             u_Birthdate = r_Birthdate user, u_Email = r_Email user,
             u_EmailVerified = r_EmailVerified user,
             u_Role = (if r_Role user = ''user'' then RoleUser else RoleAdmin),
             u_CreatedAt = r_CreatedAt user, u_UpdatedAt = r_UpdatedAt user\<rparr>
      else Inl (errors_New (''invalid role: '' @ r_Role user)))"

definition Create_record ::
  "'s runtime \<Rightarrow> CreateUserInput \<Rightarrow> 's world \<Rightarrow> (error + repository_User) \<times> 's world" where
  \<comment> \<open>the first half of \<^verbatim>\<open>Create\<close>: validation, hashing, and the record it hands to
      \<^verbatim>\<open>Insert\<close> (the calls in the composite literal run from top to bottom)\<close>
  "Create_record rt inp w =
     (case input_validate rt inp of
        Some err \<Rightarrow> (Inl (Errorf_w ''could not validate create user input: '' err), w)
      | None \<Rightarrow>
     (case run (bcrypt_GenerateFromPassword rt (in_Password inp)) w of
        (Inl err, w1) \<Rightarrow> (Inl (Errorf_s ''could not hash password: '' err), w1)
      | (Inr hash, w1) \<Rightarrow>
     (case run (uuid_NewString rt) w1 of (newID, w2) \<Rightarrow>
     (case run (time_Now rt) w2 of (t1, w3) \<Rightarrow>
     (case run (time_Now rt) w3 of (t2, w4) \<Rightarrow>
        (Inr \<lparr>r_ID = newID, r_Fullname = in_Fullname inp, r_Username = in_Username inp,
              r_Birthdate = in_Birthdate inp, r_Email = in_Email inp,
              r_EmailVerified = False, r_PasswordHash = hash, r_Role = RoleUser,
              r_CreatedAt = t1, r_UpdatedAt = t2\<rparr>, w4))))))"

definition Create ::
  "'s runtime \<Rightarrow> 's DefaultService \<Rightarrow> CreateUserInput \<Rightarrow> 's world
     \<Rightarrow> (error + User) outcome \<times> 's world" where
  "Create rt s inp w =
     (case Create_record rt inp w of
        (Inl err, w4) \<Rightarrow> (Returns (Inl err), w4)
      | (Inr new, w4) \<Rightarrow>
        (case call (Insert_call new) (Insert (repo s) new) w4 of
           (Inl err, w5) \<Rightarrow>
             (if errors_Is err ErrDuplicateRecord then (Returns (Inl errAlreadyExists), w5)
              else (Returns (Inl (Errorf_s ''could not insert user: '' err)), w5))
         | (Inr insertedUser, w5) \<Rightarrow>
            (case newUserFromRepository insertedUser of
               Inl err \<Rightarrow>
                 (Returns (Inl (Errorf_s ''could not parse storage user to domain model: '' err)), w5)
             | Inr user \<Rightarrow>
                (case emailer s of
                   None \<Rightarrow> (Returns (Inr user), w5)
                 | Some _ \<Rightarrow>
                    (case SendEmailVerification rt s (u_ID user) (u_Username user) (u_Email user) w5 of
                       (Panics msg, w6) \<Rightarrow> (Panics msg, w6)
                     | (Returns None, w6) \<Rightarrow> (Returns (Inr user), w6)
                     | (Returns (Some err), w6) \<Rightarrow>
                         (Returns (Inr user),
                          emit (logger_Error ''could not send email verification'' (u_ID user) err) w6))))))"

definition FetchByID ::
  "'s runtime \<Rightarrow> 's DefaultService \<Rightarrow> string \<Rightarrow> 's world \<Rightarrow> (error + User) \<times> 's world" where
  "FetchByID rt s ident w =
     (case validate_ID rt ident of
        Some err \<Rightarrow> (Inl (Errorf_w ''could not validate id: '' err), w)
      | None \<Rightarrow>
        (case call (SelectByID_call ident) (SelectByID (repo s) ident) w of
           (Inl err, w1) \<Rightarrow> (Inl (Errorf_s ''could not select user by id: '' err), w1)
         | (Inr None, w1) \<Rightarrow> (Inl errNotFound, w1)
         | (Inr (Some storageUser), w1) \<Rightarrow>
            (case newUserFromRepository storageUser of
               Inl err \<Rightarrow> (Inl (Errorf_s ''could not parse storage user to domain model: '' err), w1)
             | Inr user \<Rightarrow> (Inr user, w1))))"

definition Delete ::
  "'s runtime \<Rightarrow> 's DefaultService \<Rightarrow> string \<Rightarrow> 's world \<Rightarrow> error option \<times> 's world" where
  "Delete rt s ident w =
     (case validate_ID rt ident of
        Some err \<Rightarrow> (Some (Errorf_w ''could not validate id: '' err), w)
      | None \<Rightarrow>
        (case call (DeleteByID_call ident) (DeleteByID (repo s) ident) w of
           (Some err, w1) \<Rightarrow> (Some (Errorf_s ''could not delete user by id: '' err), w1)
         | (None, w1) \<Rightarrow> (None, w1)))"

section \<open>The token library as the service uses it\<close>

text \<open>
  \<^verbatim>\<open>jwt.StandardClaims\<close> and the claim structure of the service. The fields \<^verbatim>\<open>id\<close> and
  \<^verbatim>\<open>role\<close> of \<^verbatim>\<open>jwtClaim\<close> are written in lower case: they are unexported, and they have
  no JSON tag.
\<close>

record StandardClaims =
  sc_Audience :: string
  sc_ExpiresAt :: int
  sc_Id :: string
  sc_IssuedAt :: int
  sc_Issuer :: string
  sc_NotBefore :: int
  sc_Subject :: string

record jwtClaim =
  c_id :: string
  c_role :: string
  c_StandardClaims :: StandardClaims

definition omit_string :: "string \<Rightarrow> string \<Rightarrow> (string \<times> json) list" where
  "omit_string k v = (if v = [] then [] else [(k, JString v)])"

definition omit_number :: "string \<Rightarrow> int \<Rightarrow> (string \<times> json) list" where
  "omit_number k v = (if v = 0 then [] else [(k, JNumber (of_int v))])"

definition json_Marshal :: "jwtClaim \<Rightarrow> (string \<times> json) list" where
  \<comment> \<open>\<^verbatim>\<open>encoding/json\<close> on a \<^verbatim>\<open>jwtClaim\<close>: exported fields only, so the members of the
      embedded \<^verbatim>\<open>StandardClaims\<close> under their tags, each left out when empty\<close>
  "json_Marshal c =
     (let sc = c_StandardClaims c in
      omit_string ''aud'' (sc_Audience sc) @ omit_number ''exp'' (sc_ExpiresAt sc) @
      omit_string ''jti'' (sc_Id sc) @ omit_number ''iat'' (sc_IssuedAt sc) @
      omit_string ''iss'' (sc_Issuer sc) @ omit_number ''nbf'' (sc_NotBefore sc) @
      omit_string ''sub'' (sc_Subject sc))"

text \<open>
  Signing methods: the HMAC family, and the registered methods of the other families
  (\<open>none\<close> among them). \<open>jwtSigningMethod\<close> is \<^verbatim>\<open>jwt.SigningMethodHS512\<close>.
\<close>

datatype SigningMethod = SigningMethodHMAC string | SigningMethodOther string

fun Alg :: "SigningMethod \<Rightarrow> string" where
  "Alg (SigningMethodHMAC a) = a"
| "Alg (SigningMethodOther a) = a"

definition jwtSigningMethod :: SigningMethod where
  "jwtSigningMethod = SigningMethodHMAC ''HS512''"

definition GetSigningMethod :: "string \<Rightarrow> SigningMethod option" where
  "GetSigningMethod a =
     (if a \<in> set [''HS256'', ''HS384'', ''HS512''] then Some (SigningMethodHMAC a)
      else if a \<in> set [''none'', ''RS256'', ''RS384'', ''RS512'', ''PS256'', ''PS384'', ''PS512'',
                        ''ES256'', ''ES384'', ''ES512'', ''EdDSA'']
      then Some (SigningMethodOther a)
      else None)"

definition SignedString :: "'s runtime \<Rightarrow> SigningMethod \<Rightarrow> (string \<times> json) list \<Rightarrow> string \<Rightarrow> string" where
  \<comment> \<open>\<^verbatim>\<open>Token.SignedString\<close> with a byte-slice key and an HMAC method: it cannot fail\<close>
  "SignedString rt m claims key =
     (let sstr = jwt_SigningString rt (Alg m) claims
      in sstr @ ''.'' @ jwt_Sign rt (Alg m) sstr key)"

record jwt_Token =
  t_Method :: SigningMethod
  t_alg :: string
  t_Claims :: "string \<Rightarrow> json option"
  t_Valid :: bool

definition verifyExp :: "int \<Rightarrow> int \<Rightarrow> bool" where
  "verifyExp e now = (e = 0 \<or> now \<le> e)"

definition verifyIat :: "int \<Rightarrow> int \<Rightarrow> bool" where
  "verifyIat i now = (i = 0 \<or> i \<le> now)"

definition verifyNbf :: "int \<Rightarrow> int \<Rightarrow> bool" where
  "verifyNbf n now = (n = 0 \<or> n \<le> now)"

definition VerifyExpiresAt :: "'s runtime \<Rightarrow> (string \<Rightarrow> json option) \<Rightarrow> int \<Rightarrow> bool" where
  "VerifyExpiresAt rt m cmp =
     (case m ''exp'' of
        None \<Rightarrow> True
      | Some (JNumber e) \<Rightarrow> verifyExp (float_int64 rt e) cmp
      | Some _ \<Rightarrow> False)"

definition VerifyIssuedAt :: "'s runtime \<Rightarrow> (string \<Rightarrow> json option) \<Rightarrow> int \<Rightarrow> bool" where
  "VerifyIssuedAt rt m cmp =
     (case m ''iat'' of
        None \<Rightarrow> True
      | Some (JNumber i) \<Rightarrow> verifyIat (float_int64 rt i) cmp
      | Some _ \<Rightarrow> False)"

definition VerifyNotBefore :: "'s runtime \<Rightarrow> (string \<Rightarrow> json option) \<Rightarrow> int \<Rightarrow> bool" where
  "VerifyNotBefore rt m cmp =
     (case m ''nbf'' of
        None \<Rightarrow> True
      | Some (JNumber n) \<Rightarrow> verifyNbf (float_int64 rt n) cmp
      | Some _ \<Rightarrow> False)"

definition MapClaims_Valid :: "'s runtime \<Rightarrow> (string \<Rightarrow> json option) \<Rightarrow> int \<Rightarrow> error option" where
  \<comment> \<open>\<^verbatim>\<open>MapClaims.Valid\<close>: the three checks run in the order exp, iat, nbf and the last
      failure is the one reported\<close>
  "MapClaims_Valid rt m now =
     (if \<not> VerifyNotBefore rt m now then Some (ValidationError (errors_New ''Token is not valid yet''))
      else if \<not> VerifyIssuedAt rt m now then Some (ValidationError (errors_New ''Token used before issued''))
      else if \<not> VerifyExpiresAt rt m now then Some (ValidationError (errors_New ''Token is expired''))
      else None)"

definition Verify :: "'s runtime \<Rightarrow> SigningMethod \<Rightarrow> string \<Rightarrow> string \<Rightarrow> string \<Rightarrow> error option" where
  \<comment> \<open>\<^verbatim>\<open>Method.Verify\<close> with a byte-slice key: the HMAC methods recompute the MAC and
      compare; the other methods do not take such a key\<close>
  "Verify rt m sstr sig key =
     (case m of
        SigningMethodHMAC a \<Rightarrow>
          (if jwt_Sign rt a sstr key = sig then None else Some (errors_New ''signature is invalid''))
      | SigningMethodOther a \<Rightarrow> Some (errors_New ''key is of invalid type''))"

definition jwt_Parse ::
  "'s runtime \<Rightarrow> (jwt_Token \<Rightarrow> error + string) \<Rightarrow> string \<Rightarrow> 's world
     \<Rightarrow> (error + jwt_Token) \<times> 's world" where
  \<comment> \<open>\<^verbatim>\<open>jwt.Parse\<close>: decode, look the method up, ask the key function, validate the claims
      against the clock, verify the signature\<close>
  "jwt_Parse rt keyFunc tokenString w =
     (case jwt_split rt tokenString of
        None \<Rightarrow> (Inl (ValidationError (errors_New ''token is malformed'')), w)
      | Some parts \<Rightarrow>
        (case hdr_alg parts of
           Some (JString a) \<Rightarrow>
             (case GetSigningMethod a of
                None \<Rightarrow> (Inl (ValidationError (errors_New ''signing method (alg) is unavailable.'')), w)
              | Some m \<Rightarrow>
                 let token = \<lparr>t_Method = m, t_alg = a, t_Claims = payload parts, t_Valid = False\<rparr> in
                 (case keyFunc token of
                    Inl err \<Rightarrow>
                      (Inl (case err of ValidationError e \<Rightarrow> err | _ \<Rightarrow> ValidationError err), w)
                  | Inr key \<Rightarrow>
                     (case run (time_Now rt) w of (now, w1) \<Rightarrow>
                        (case Verify rt m (signing_input parts) (signature parts) key of
                           Some e \<Rightarrow> (Inl (ValidationError e), w1)
                         | None \<Rightarrow>
                            (case MapClaims_Valid rt (payload parts) (Unix now) of
                               Some e \<Rightarrow> (Inl e, w1)
                             | None \<Rightarrow> (Inr (token\<lparr>t_Valid := True\<rparr>), w1))))))
         | _ \<Rightarrow> (Inl (ValidationError (errors_New ''signing method (alg) is unspecified.'')), w)))"

section \<open>Issuing and verifying tokens\<close>

definition generateJWT ::
  "'s runtime \<Rightarrow> 's DefaultService \<Rightarrow> string \<Rightarrow> role \<Rightarrow> 's world \<Rightarrow> (error + string) \<times> 's world" where
  \<comment> \<open>the branch for a failure of \<^verbatim>\<open>SignedString\<close> is left out: with this method and
      key it is never taken\<close>
  "generateJWT rt s userID role w =
     (case validate_ID rt userID of
        Some err \<Rightarrow> (Inl (Errorf_w ''could not validate id: '' err), w)
      | None \<Rightarrow>
        (case role_validate role of
           Some err \<Rightarrow> (Inl errRoleInvalid, w)
         | None \<Rightarrow>
            (case run (time_Now rt) w of (now, w1) \<Rightarrow>
               let claims = \<lparr>c_id = userID, c_role = role,
                      c_StandardClaims = \<lparr>sc_Audience = [], sc_ExpiresAt = Unix (Add now (hour * 24)),
                         sc_Id = [], sc_IssuedAt = Unix now, sc_Issuer = [], sc_NotBefore = 0,
                         sc_Subject = []\<rparr>\<rparr>
               in (Inr (SignedString rt jwtSigningMethod (json_Marshal claims) (jwtSigningKey s)), w1))))"

definition GenerateToken ::
  "'s runtime \<Rightarrow> 's DefaultService \<Rightarrow> string \<Rightarrow> string \<Rightarrow> 's world \<Rightarrow> (error + string) \<times> 's world" where
  "GenerateToken rt s email password w =
     (case validate_Email rt email of
        Some err \<Rightarrow> (Inl (Errorf_s ''could not validate email: '' err), w)
      | None \<Rightarrow>
     (case validate_Password rt password of
        Some err \<Rightarrow> (Inl (Errorf_s ''could not validate password: '' err), w)
      | None \<Rightarrow>
     (case call (SelectByEmail_call email) (SelectByEmail (repo s) email) w of
        (Inl err, w1) \<Rightarrow> (Inl (Errorf_s ''could not select user by email: '' err), w1)
      | (Inr None, w1) \<Rightarrow> (Inl errNotFound, w1)
      | (Inr (Some storageUser), w1) \<Rightarrow>
         (case bcrypt_CompareHashAndPassword rt (r_PasswordHash storageUser) password of
            Some err \<Rightarrow> (Inl errPasswordInvalid, w1)
          | None \<Rightarrow>
             (case generateJWT rt s (r_ID storageUser) (r_Role storageUser) w1 of
                (Inl err, w2) \<Rightarrow> (Inl (Errorf_s ''could not generate jwt: '' err), w2)
              | (Inr token, w2) \<Rightarrow> (Inr token, w2))))))"

definition keyFunc :: "'s DefaultService \<Rightarrow> jwt_Token \<Rightarrow> error + string" where
  \<comment> \<open>the function literal \<^verbatim>\<open>VerifyToken\<close> passes to \<^verbatim>\<open>jwt.Parse\<close>\<close>
  "keyFunc s token =
     (case t_Method token of
        SigningMethodOther a \<Rightarrow> Inl (errors_New (''unexpected signing method: '' @ t_alg token))
      | SigningMethodHMAC a \<Rightarrow>
          (if a \<noteq> Alg jwtSigningMethod then Inl (errors_New ''invalid token signing method'')
           else Inr (jwtSigningKey s)))"

definition VerifyToken ::
  "'s runtime \<Rightarrow> 's DefaultService \<Rightarrow> string \<Rightarrow> 's world
     \<Rightarrow> (error + VerifyTokenResponse) \<times> 's world" where
  "VerifyToken rt s token w =
     (if token = [] then (Inl errTokenEmpty, w)
      else
     (case jwt_Parse rt (keyFunc s) token w of
        (Inl err, w1) \<Rightarrow> (Inl (Errorf_s ''could not parse token: '' err), w1)
      | (Inr jwtToken, w1) \<Rightarrow>
     (if \<not> t_Valid jwtToken then (Inl errTokenInvalid, w1)
      else
     (case t_Claims jwtToken ''user_id'' of
        Some (JString userID) \<Rightarrow>
          (case t_Claims jwtToken ''role'' of
             Some (JString role) \<Rightarrow>
               (case t_Claims jwtToken ''exp'' of
                  Some (JNumber expiration) \<Rightarrow>
                    (case run (time_Now rt) w1 of (now, w2) \<Rightarrow>
                       (if Before (time_Unix (float_int64 rt expiration)) now then (Inl errTokenExpired, w2)
                        else
                          (case call (SelectByID_call userID) (SelectByID (repo s) userID) w2 of
                             (Inl err, w3) \<Rightarrow> (Inl (Errorf_s ''could not select user by id: '' err), w3)
                           | (Inr None, w3) \<Rightarrow> (Inl errNotFound, w3)
                           | (Inr (Some storageUser), w3) \<Rightarrow>
                               (Inr \<lparr>v_ID = r_ID storageUser, v_Username = r_Username storageUser,
                                     v_Role = role\<rparr>, w3))))
                | _ \<Rightarrow> (Inl (errors_New ''could not find expiration in token''), w1))
           | _ \<Rightarrow> (Inl (errors_New ''could not find role in token''), w1))
      | _ \<Rightarrow> (Inl (errors_New ''could not find user id in token''), w1)))))"

section \<open>A test double\<close>

text \<open>
  An in-memory repository, a mailer that records its messages, a clock that advances by a
  fixed step at every reading, a list of random samples, and a token codec that renders the
  header and the claims as text and decodes the tokens of a given list. The closed
  statements below run the service against it.
\<close>

record fake =
  f_users :: "repository_User list"
  f_verifications :: "EmailVerification list"
  f_outbox :: "(string \<times> string \<times> string) list"
  f_clock :: time
  f_tick :: int
  f_samples :: "nat list"

definition fake_Now :: "fake \<Rightarrow> time \<times> fake" where
  "fake_Now x = (f_clock x, x\<lparr>f_clock := f_clock x + f_tick x\<rparr>)"

definition fake_sample :: "fake \<Rightarrow> nat \<times> fake" where
  "fake_sample x = (case f_samples x of [] \<Rightarrow> (0, x) | v # vs \<Rightarrow> (v, x\<lparr>f_samples := vs\<rparr>))"

definition fake_repo :: "fake repo" where
  "fake_repo =
     \<lparr>Insert = (\<lambda>u x. (Inr u, x\<lparr>f_users := f_users x @ [u]\<rparr>)),
      SelectByID = (\<lambda>i x. (Inr (find (\<lambda>u. r_ID u = i) (f_users x)), x)),
      SelectByEmail = (\<lambda>e x. (Inr (find (\<lambda>u. r_Email u = e) (f_users x)), x)),
      DeleteByID = (\<lambda>i x. (None, x\<lparr>f_users := filter (\<lambda>u. r_ID u \<noteq> i) (f_users x)\<rparr>)),
      InsertEmailVerification = (\<lambda>v x. (None, x\<lparr>f_verifications := f_verifications x @ [v]\<rparr>))\<rparr>"

definition fake_Send :: "string \<Rightarrow> string \<Rightarrow> string \<Rightarrow> fake \<Rightarrow> error option \<times> fake" where
  "fake_Send from to body x = (None, x\<lparr>f_outbox := f_outbox x @ [(from, to, body)]\<rparr>)"

definition failing_Send :: "string \<Rightarrow> string \<Rightarrow> string \<Rightarrow> fake \<Rightarrow> error option \<times> fake" where
  "failing_Send from to body x = (Some (errors_New ''connection refused''), x)"

fun digits :: "nat \<Rightarrow> string" where
  "digits n = (if n < 10 then [''0123456789'' ! n]
               else digits (n div 10) @ [''0123456789'' ! (n mod 10)])"

declare digits.simps [simp del]

fun render :: "(string \<times> json) \<Rightarrow> string" where
  "render (k, JString v) = k @ ''='' @ v @ '';''"
| "render (k, JNumber x) =
     k @ ''#'' @ (if x < 0 then ''-'' else []) @ digits (nat \<bar>float_trunc x\<bar>) @
     (if of_int (float_trunc x) = x then [] else ''+'') @ '';''"
| "render (k, JOther) = k @ ''?;''"

definition fake_SigningString :: "string \<Rightarrow> (string \<times> json) list \<Rightarrow> string" where
  "fake_SigningString a cl = a @ ''.'' @ concat (map render cl)"

definition fake_Sign :: "string \<Rightarrow> string \<Rightarrow> string \<Rightarrow> string" where
  "fake_Sign a sstr key = ''mac:'' @ a @ '':'' @ key @ '':'' @ sstr"

definition fake_split :: "(string \<times> (string \<times> json) list \<times> string) list \<Rightarrow> string \<Rightarrow> jwt_parts option" where
  "fake_split known t =
     (case find (\<lambda>(a, cl, sg). fake_SigningString a cl @ ''.'' @ sg = t) known of
        None \<Rightarrow> None
      | Some (a, cl, sg) \<Rightarrow>
          Some \<lparr>hdr_alg = Some (JString a), payload = map_of cl,
                signing_input = fake_SigningString a cl, signature = sg\<rparr>)"

definition required :: "string \<Rightarrow> string \<Rightarrow> error option" where
  "required name v = (if v = [] then Some (errors_New (name @ '' is required'')) else None)"

definition fake_runtime :: "(string \<times> (string \<times> json) list \<times> string) list \<Rightarrow> fake runtime" where
  "fake_runtime known =
     \<lparr>input_validate = (\<lambda>i. required ''email'' (in_Email i)),
      validate_ID = required ''id'',
      validate_Email = required ''email'',
      validate_Password = required ''password'',
      bcrypt_GenerateFromPassword = (\<lambda>p x. (Inr (''$2a$'' @ p), x)),
      bcrypt_CompareHashAndPassword =
        (\<lambda>h p. if h = ''$2a$'' @ p then None else Some (errors_New ''hash mismatch'')),
      uuid_NewString = (\<lambda>x. (''id-'' @ digits (length (f_users x)), x)),
      time_Now = fake_Now,
      rand_sample = fake_sample,
      path_Join = (\<lambda>a b. a @ ''/'' @ b),
      jwt_SigningString = fake_SigningString,
      jwt_Sign = fake_Sign,
      jwt_split = fake_split known,
      int64_out_of_range = (\<lambda>x. - (2 ^ 63))\<rparr>"

definition fake_service :: "fake DefaultService" where
  "fake_service =
     \<lparr>jwtSigningKey = ''secret'', emailVerificationSenderName = ''Acme'',
      emailVerificationSenderAddr = ''noreply@acme.test'',
      emailVerificationEndpoint = ''acme.test/verify'',
      emailer = Some fake_Send, repo = fake_repo\<rparr>"

definition jane :: repository_User where
  "jane = \<lparr>r_ID = ''id-0'', r_Fullname = ''Jane Doe'', r_Username = ''janedoe'', r_Birthdate = 0,
           r_Email = ''jane@example.com'', r_EmailVerified = False,
           r_PasswordHash = ''$2a$Str0ngPass!'', r_Role = ''user'', r_CreatedAt = 0, r_UpdatedAt = 0\<rparr>"

definition fake_world :: "repository_User list \<Rightarrow> time \<Rightarrow> int \<Rightarrow> fake world" where
  "fake_world us t d =
     \<lparr>ext = \<lparr>f_users = us, f_verifications = [], f_outbox = [], f_clock = t, f_tick = d,
              f_samples = [0, 37, 2, 29, 4, 35]\<rparr>, trace = []\<rparr>"

definition fake_token :: "string \<Rightarrow> (string \<times> json) list \<Rightarrow> string \<Rightarrow> string" where
  "fake_token a cl sg = fake_SigningString a cl @ ''.'' @ sg"

definition fake_mac :: "string \<Rightarrow> (string \<times> json) list \<Rightarrow> string" where
  "fake_mac a cl = fake_Sign a (fake_SigningString a cl) ''secret''"

definition issued_claims :: "(string \<times> json) list" where
  "issued_claims = [(''exp'', JNumber 86405), (''iat'', JNumber 5)]"

definition admin_claims :: "(string \<times> json) list" where
  "admin_claims = [(''user_id'', JString ''id-0''), (''role'', JString ''admin''), (''exp'', JNumber 100)]"

definition far_claims :: "(string \<times> json) list" where
  \<comment> \<open>an expiry of \<open>2 ^ 63 - 1024\<close> seconds\<close>
  "far_claims = [(''user_id'', JString ''id-0''), (''role'', JString ''user''),
                 (''exp'', JNumber 9223372036854774784)]"

definition half_claims :: "(string \<times> json) list" where
  \<comment> \<open>an expiry of 100.5 seconds\<close>
  "half_claims = [(''user_id'', JString ''id-0''), (''role'', JString ''user''),
                  (''exp'', JNumber (201 / 2))]"

definition edge_tokens :: "(string \<times> (string \<times> json) list \<times> string) list" where
  "edge_tokens =
     [(''HS512'', far_claims, fake_mac ''HS512'' far_claims),
      (''HS512'', half_claims, fake_mac ''HS512'' half_claims)]"

definition known_tokens :: "(string \<times> (string \<times> json) list \<times> string) list" where
  "known_tokens =
     [(''HS512'', issued_claims, fake_mac ''HS512'' issued_claims),
      (''HS512'', admin_claims, fake_mac ''HS512'' admin_claims),
      (''HS256'', admin_claims, fake_mac ''HS256'' admin_claims),
      (''none'', admin_claims, [])]"

definition jane_input :: CreateUserInput where
  "jane_input = \<lparr>in_Fullname = ''Jane Doe'', in_Username = ''janedoe'', in_Birthdate = 0,
                 in_Email = ''jane@example.com'', in_Password = ''Str0ngPass!''\<rparr>"

definition jane_record :: repository_User where
  "jane_record = jane\<lparr>r_CreatedAt := 0, r_UpdatedAt := 1\<rparr>"

definition jane_user :: User where
  "jane_user = \<lparr>u_ID = ''id-0'', u_Fullname = ''Jane Doe'', u_Username = ''janedoe'', u_Birthdate = 0,
                u_Email = ''jane@example.com'', u_EmailVerified = False, u_Role = RoleUser,
                u_CreatedAt = 0, u_UpdatedAt = 1\<rparr>"

definition world_at :: "time \<Rightarrow> fake world" where
  "world_at t = fake_world [] t 1"

text \<open>
  Two repositories whose \<open>Insert\<close> fails: with a wrapped duplicate-record error, and with
  another error.
\<close>

definition duplicate_repo :: "fake repo" where
  "duplicate_repo = fake_repo\<lparr>Insert := (\<lambda>u x. (Inl (Errorf_w ''insert user: '' ErrDuplicateRecord), x))\<rparr>"

definition broken_repo :: "fake repo" where
  "broken_repo = fake_repo\<lparr>Insert := (\<lambda>u x. (Inl (errors_New ''connection reset''), x))\<rparr>"

section \<open>The trace and the random code\<close>

lemma trace_run: "trace (snd (run f w)) = trace w"
  by (simp add: run_def split: prod.split)

lemma trace_emit: "trace (emit e w) = trace w @ [e]"
  by (simp add: emit_def)

lemma trace_call: "trace (snd (call e f w)) = trace w @ [e]"
  by (simp add: call_def trace_run trace_emit)

lemma run_trace_eq: "run f w = (a, w') \<Longrightarrow> trace w' = trace w"
  using trace_run [of f w] by simp

lemma call_trace_eq: "call e f w = (a, w') \<Longrightarrow> trace w' = trace w @ [e]"
  using trace_call [of e f w] by simp

lemma Intn_trace_eq: "Intn rt n w = (k, w') \<Longrightarrow> trace w' = trace w"
  by (auto simp: Intn_def split: prod.splits dest: run_trace_eq)

lemma Intn_less: "0 < n \<Longrightarrow> Intn rt n w = (k, w') \<Longrightarrow> k < n"
  by (auto simp: Intn_def split: prod.splits)

lemma randString_trace_eq: "randString rt n w = (code, w') \<Longrightarrow> trace w' = trace w"
proof (induction n arbitrary: w code w')
  case 0
  then show ?case by simp
next
  case (Suc n)
  then show ?case
    by (auto split: prod.splits dest: Intn_trace_eq)
qed

lemma randString_length: "randString rt n w = (code, w') \<Longrightarrow> length code = n"
  by (induction n arbitrary: w code w') (auto split: prod.splits)

lemma length_chars: "length chars = 36"
  by (simp add: chars_def)

lemma randString_alphabet: "randString rt n w = (code, w') \<Longrightarrow> set code \<subseteq> set chars"
proof (induction n arbitrary: w code w')
  case 0
  then show ?case by simp
next
  case (Suc n)
  from Suc.prems obtain k w1 rest where
    k: "Intn rt (length chars) w = (k, w1)" and
    r: "randString rt n w1 = (rest, w')" and
    c: "code = chars ! k # rest"
    by (auto split: prod.splits)
  have "k < length chars" using Intn_less [OF _ k] by (simp add: length_chars)
  then have "chars ! k \<in> set chars" by simp
  with Suc.IH [OF r] c show ?case by simp
qed

lemma newEmailVerification_record:
  assumes "newEmailVerification rt userID w = (inp, w3)"
  shows "length (ev_Code inp) = 6 \<and> set (ev_Code inp) \<subseteq> set chars \<and> ev_UserID inp = userID
         \<and> trace w3 = trace w
         \<and> (\<exists>w1 w2. randString rt 6 w = (ev_Code inp, w1)
                  \<and> run (time_Now rt) w1 = (ev_CreatedAt inp, w2)
                  \<and> run (time_Now rt) w2 = (ev_ExpiresAt inp - hour * 24, w3))"
proof -
  from assms obtain code w1 t1 w2 t2 where
    c: "randString rt 6 w = (code, w1)" and
    a: "run (time_Now rt) w1 = (t1, w2)" and
    b: "run (time_Now rt) w2 = (t2, w3)" and
    i: "inp = \<lparr>ev_Code = code, ev_UserID = userID, ev_CreatedAt = t1, ev_ExpiresAt = Add t2 (hour * 24)\<rparr>"
    by (auto simp: newEmailVerification_def split: prod.splits)
  have "trace w3 = trace w"
    using randString_trace_eq [OF c] run_trace_eq [OF a] run_trace_eq [OF b] by simp
  moreover have "length code = 6" using randString_length [OF c] .
  moreover have "set code \<subseteq> set chars" using randString_alphabet [OF c] .
  ultimately show ?thesis using a b c i by (auto simp: Add_def)
qed

lemma SendEmailVerification_trace:
  assumes "newEmailVerification rt userID w = (inp, w3)"
  shows "\<exists>rest. trace (snd (SendEmailVerification rt s userID username to w))
           = trace w @ InsertEmailVerification_call inp # rest"
proof -
  have t3: "trace w3 = trace w" using newEmailVerification_record [OF assms] by simp
  obtain r w4 where c: "call (InsertEmailVerification_call inp) (InsertEmailVerification (repo s) inp) w3 = (r, w4)"
    by (cases "call (InsertEmailVerification_call inp) (InsertEmailVerification (repo s) inp) w3")
  have t4: "trace w4 = trace w @ [InsertEmailVerification_call inp]"
    using call_trace_eq [OF c] t3 by simp
  show ?thesis
    using assms c t4
    by (auto simp: SendEmailVerification_def Let_def split: option.splits prod.splits dest: call_trace_eq)
qed

lemma SendEmailVerification_trace_prefix:
  "\<exists>rest. trace (snd (SendEmailVerification rt s userID username to w)) = trace w @ rest"
proof -
  obtain i v where "newEmailVerification rt userID w = (i, v)"
    by (cases "newEmailVerification rt userID w")
  from SendEmailVerification_trace [OF this, of s username to] obtain rest where
    "trace (snd (SendEmailVerification rt s userID username to w))
       = trace w @ InsertEmailVerification_call i # rest" by blast
  then show ?thesis by blast
qed

lemma SendEmailVerification_configured:
  assumes "emailer s = Some send"
  shows "\<exists>r. fst (SendEmailVerification rt s userID username to w) = Returns r"
  using assms
  by (auto simp: SendEmailVerification_def Let_def split: option.splits prod.splits)

section \<open>Facts about the test double\<close>

lemmas fake_simps = fake_runtime_def fake_service_def fake_repo_def fake_world_def fake_Now_def
  fake_sample_def fake_Send_def failing_Send_def fake_SigningString_def fake_Sign_def
  fake_split_def required_def jane_def known_tokens_def fake_token_def fake_mac_def
  issued_claims_def admin_claims_def

lemmas world_simps = run_def call_def emit_def

lemmas time_simps = second_def hour_def time_Unix_def Unix_def Add_def Before_def int64_def
  unixToInternal_def float_int64_def float_trunc_def

lemmas jwt_simps = jwt_Parse_def keyFunc_def GetSigningMethod_def Verify_def MapClaims_Valid_def
  VerifyExpiresAt_def VerifyIssuedAt_def VerifyNotBefore_def verifyExp_def verifyIat_def
  verifyNbf_def jwtSigningMethod_def SignedString_def
  json_Marshal_def omit_string_def omit_number_def

lemma digits_0: "digits 0 = ''0''"
  by (simp add: digits.simps)

lemma digits_100: "digits 100 = ''100''"
  by (simp add: digits.simps)

lemma digits_86405: "digits 86405 = ''86405''"
  by (simp add: digits.simps)

lemma randString_6:
  "randString rt 6 w = randString rt (Suc (Suc (Suc (Suc (Suc (Suc 0)))))) w"
  by (simp add: eval_nat_numeral)

lemma fake_randString:
  assumes "rand_sample rt = fake_sample"
  shows "randString rt 6 (fake_world us t d)
     = (''abc3e9'', \<lparr>ext = \<lparr>f_users = us, f_verifications = [], f_outbox = [], f_clock = t,
                         f_tick = d, f_samples = []\<rparr>, trace = []\<rparr>)"
  using assms
  apply (simp add: randString_6 Intn_def length_chars fake_world_def fake_sample_def world_simps)
  apply (simp add: chars_def)
  done

lemma fake_Create_record:
  "Create_record (fake_runtime known_tokens) jane_input (world_at 0) = (Inr jane_record, world_at 2)"
  by (simp add: Create_record_def jane_input_def jane_record_def world_at_def RoleUser_def
        fake_simps world_simps digits_0)

section \<open>Properties of account creation\<close>

lemma Create_record_fields:
  assumes "Create_record rt inp w = (Inr new, w4)"
  shows "input_validate rt inp = None \<and> r_Role new = ''user'' \<and> \<not> r_EmailVerified new
         \<and> r_Email new = in_Email inp \<and> r_Username new = in_Username inp
         \<and> r_Fullname new = in_Fullname inp \<and> trace w4 = trace w"
proof -
  from assms obtain hash w1 newID w2 t1 w3 t2 where
    v: "input_validate rt inp = None" and
    h: "run (bcrypt_GenerateFromPassword rt (in_Password inp)) w = (Inr hash, w1)" and
    u: "run (uuid_NewString rt) w1 = (newID, w2)" and
    a: "run (time_Now rt) w2 = (t1, w3)" and
    b: "run (time_Now rt) w3 = (t2, w4)" and
    n: "new = \<lparr>r_ID = newID, r_Fullname = in_Fullname inp, r_Username = in_Username inp,
              r_Birthdate = in_Birthdate inp, r_Email = in_Email inp,
              r_EmailVerified = False, r_PasswordHash = hash, r_Role = RoleUser,
              r_CreatedAt = t1, r_UpdatedAt = t2\<rparr>"
    by (auto simp: Create_record_def split: option.splits prod.splits sum.splits)
  have "trace w4 = trace w"
    using run_trace_eq [OF h] run_trace_eq [OF u] run_trace_eq [OF a] run_trace_eq [OF b]
    by simp
  with v n show ?thesis by (simp add: RoleUser_def)
qed

lemma Create_record_reached:
  assumes "input_validate rt inp = None"
    and "fst (run (bcrypt_GenerateFromPassword rt (in_Password inp)) w) = Inr hash"
  shows "\<exists>new w4. Create_record rt inp w = (Inr new, w4)"
  using assms
  by (auto simp: Create_record_def split: option.splits prod.splits sum.splits)

lemma Create_after_insert:
  assumes "Create_record rt inp w = (Inr new, w4)"
    and "call (Insert_call new) (Insert (repo s) new) w4 = (Inr r, w5)"
    and "newUserFromRepository r = Inr user"
  shows "fst (Create rt s inp w) = Returns (Inr user)"
    and "emailer s = None \<Longrightarrow> snd (Create rt s inp w) = w5"
    and "emailer s = Some send \<Longrightarrow>
           SendEmailVerification rt s (u_ID user) (u_Username user) (u_Email user) w5
             = (Returns (Some err), w6) \<Longrightarrow>
           Create rt s inp w
             = (Returns (Inr user), emit (logger_Error ''could not send email verification'' (u_ID user) err) w6)"
    and "\<exists>rest. trace (snd (Create rt s inp w)) = trace w @ Insert_call new # rest"
proof -
  show "fst (Create rt s inp w) = Returns (Inr user)"
  proof (cases "emailer s")
    case None
    then show ?thesis using assms by (simp add: Create_def)
  next
    case (Some send)
    from SendEmailVerification_configured [OF Some] obtain r' where
      "fst (SendEmailVerification rt s (u_ID user) (u_Username user) (u_Email user) w5) = Returns r'"
      by blast
    then show ?thesis using assms Some
      by (cases "SendEmailVerification rt s (u_ID user) (u_Username user) (u_Email user) w5")
         (auto simp: Create_def split: option.splits)
  qed
  show "emailer s = None \<Longrightarrow> snd (Create rt s inp w) = w5"
    using assms by (simp add: Create_def)
  show "emailer s = Some send \<Longrightarrow>
           SendEmailVerification rt s (u_ID user) (u_Username user) (u_Email user) w5
             = (Returns (Some err), w6) \<Longrightarrow>
           Create rt s inp w
             = (Returns (Inr user), emit (logger_Error ''could not send email verification'' (u_ID user) err) w6)"
    using assms by (simp add: Create_def)
  have t5: "trace w5 = trace w @ [Insert_call new]"
    using call_trace_eq [OF assms(2)] Create_record_fields [OF assms(1)] by simp
  show "\<exists>rest. trace (snd (Create rt s inp w)) = trace w @ Insert_call new # rest"
  proof (cases "emailer s")
    case None
    then show ?thesis using assms t5 by (simp add: Create_def)
  next
    case (Some send)
    obtain o6 w6 where sv: "SendEmailVerification rt s (u_ID user) (u_Username user) (u_Email user) w5 = (o6, w6)"
      by (cases "SendEmailVerification rt s (u_ID user) (u_Username user) (u_Email user) w5")
    from SendEmailVerification_trace_prefix [of rt s "u_ID user" "u_Username user" "u_Email user" w5] sv
    obtain rest where "trace w6 = trace w5 @ rest" by auto
    then show ?thesis using assms Some sv t5
      by (auto simp: Create_def trace_emit split: outcome.splits option.splits)
  qed
qed

text \<open>
  Claim C4. For every creation input that passes validation (and whose password the hash
  function accepts), \<open>Create\<close> hands to the repository a record whose role is
  \<open>user\<close> and whose \<open>emailVerified\<close> flag is false, whatever the input holds;
  and when the repository stores that record and answers with its role and flag, \<open>Create\<close>
  returns a user with role \<open>user\<close> and \<open>emailVerified = false\<close>.
\<close>

theorem Create_forces_role_user:
  assumes "input_validate rt inp = None"
    and "fst (run (bcrypt_GenerateFromPassword rt (in_Password inp)) w) = Inr hash"
  shows "\<exists>new w4. Create_record rt inp w = (Inr new, w4)
           \<and> r_Role new = ''user'' \<and> \<not> r_EmailVerified new
           \<and> (\<forall>r w5. call (Insert_call new) (Insert (repo s) new) w4 = (Inr r, w5)
                  \<and> r_Role r = r_Role new \<and> r_EmailVerified r = r_EmailVerified new
               \<longrightarrow> (\<exists>user w'. Create rt s inp w = (Returns (Inr user), w')
                      \<and> u_Role user = RoleUser \<and> \<not> u_EmailVerified user
                      \<and> Insert_call new \<in> set (trace w')))"
proof -
  from Create_record_reached [OF assms] obtain new w4 where
    cr: "Create_record rt inp w = (Inr new, w4)" by blast
  have f: "r_Role new = ''user''" "\<not> r_EmailVerified new"
    using Create_record_fields [OF cr] by simp_all
  have "\<exists>user w'. Create rt s inp w = (Returns (Inr user), w')
          \<and> u_Role user = RoleUser \<and> \<not> u_EmailVerified user \<and> Insert_call new \<in> set (trace w')"
    if ins: "call (Insert_call new) (Insert (repo s) new) w4 = (Inr r, w5)"
      and ro: "r_Role r = r_Role new" and ev: "r_EmailVerified r = r_EmailVerified new"
    for r w5
  proof -
    obtain user where u: "newUserFromRepository r = Inr user"
      and p: "u_Role user = RoleUser" "\<not> u_EmailVerified user"
      using ro ev f by (simp add: newUserFromRepository_def)
    from Create_after_insert(1) [OF cr ins u] Create_after_insert(4) [OF cr ins u]
    obtain rest where
      "fst (Create rt s inp w) = Returns (Inr user)"
      "trace (snd (Create rt s inp w)) = trace w @ Insert_call new # rest" by blast
    then have "Create rt s inp w = (Returns (Inr user), snd (Create rt s inp w))"
      "Insert_call new \<in> set (trace (snd (Create rt s inp w)))"
      by (simp_all add: prod_eq_iff)
    with p show ?thesis by blast
  qed
  with cr f show ?thesis by blast
qed

text \<open>
  The statement of C4 at the input of the spec's example, against the test double.
\<close>

theorem Create_forces_role_user_witness:
  "\<exists>user w'. Create (fake_runtime known_tokens) fake_service jane_input (world_at 0)
                = (Returns (Inr user), w')
             \<and> u_Role user = RoleUser \<and> \<not> u_EmailVerified user"
proof -
  let ?rt = "fake_runtime known_tokens"
  have h1: "input_validate ?rt jane_input = None"
    by (simp add: fake_simps jane_input_def)
  have h2: "fst (run (bcrypt_GenerateFromPassword ?rt (in_Password jane_input)) (world_at 0))
              = Inr ''$2a$Str0ngPass!''"
    by (simp add: fake_simps world_simps jane_input_def)
  from Create_forces_role_user [OF h1 h2, of fake_service] obtain new w4 where
    imp: "\<forall>r w5. call (Insert_call new) (Insert (repo fake_service) new) w4 = (Inr r, w5)
                  \<and> r_Role r = r_Role new \<and> r_EmailVerified r = r_EmailVerified new
               \<longrightarrow> (\<exists>user w'. Create ?rt fake_service jane_input (world_at 0) = (Returns (Inr user), w')
                      \<and> u_Role user = RoleUser \<and> \<not> u_EmailVerified user
                      \<and> Insert_call new \<in> set (trace w'))"
    by blast
  have ins: "call (Insert_call new) (Insert (repo fake_service) new) w4
               = (Inr new, snd (call (Insert_call new) (Insert (repo fake_service) new) w4))"
    by (simp add: fake_service_def fake_repo_def world_simps)
  from imp ins show ?thesis by blast
qed

text \<open>
  Claim C6. When \<open>Insert\<close> reports an error that is (or wraps) the duplicate-record
  error, \<open>Create\<close> fails with \<open>errAlreadyExists\<close> and returns no user; every other
  failure of \<open>Insert\<close> comes back as the storage error wrapped in text, which is not
  \<open>errAlreadyExists\<close>.
\<close>

theorem Create_insert_failure:
  assumes "Create_record rt inp w = (Inr new, w4)"
    and "call (Insert_call new) (Insert (repo s) new) w4 = (Inl err, w5)"
  shows "(errors_Is err ErrDuplicateRecord \<longrightarrow>
            Create rt s inp w = (Returns (Inl errAlreadyExists), w5))
       \<and> (\<not> errors_Is err ErrDuplicateRecord \<longrightarrow>
            Create rt s inp w = (Returns (Inl (Errorf_s ''could not insert user: '' err)), w5)
            \<and> \<not> errors_Is (Errorf_s ''could not insert user: '' err) errAlreadyExists)"
  using assms by (simp add: Create_def)

text \<open>
  C6 with a repository that reports a duplicate and with one that reports another failure.
\<close>

theorem Create_insert_failure_witness:
  "fst (Create (fake_runtime known_tokens) (fake_service\<lparr>repo := duplicate_repo\<rparr>) jane_input (world_at 0))
     = Returns (Inl errAlreadyExists)
   \<and> fst (Create (fake_runtime known_tokens) (fake_service\<lparr>repo := broken_repo\<rparr>) jane_input (world_at 0))
     = Returns (Inl (Errorf_s ''could not insert user: '' (errors_New ''connection reset'')))"
proof -
  let ?rt = "fake_runtime known_tokens"
  let ?w5 = "emit (Insert_call jane_record) (world_at 2)"
  have d: "call (Insert_call jane_record) (Insert (repo (fake_service\<lparr>repo := duplicate_repo\<rparr>)) jane_record)
             (world_at 2) = (Inl (Errorf_w ''insert user: '' ErrDuplicateRecord), ?w5)"
    by (simp add: duplicate_repo_def world_simps)
  have b: "call (Insert_call jane_record) (Insert (repo (fake_service\<lparr>repo := broken_repo\<rparr>)) jane_record)
             (world_at 2) = (Inl (errors_New ''connection reset''), ?w5)"
    by (simp add: broken_repo_def world_simps)
  from Create_insert_failure [OF fake_Create_record d] Create_insert_failure [OF fake_Create_record b]
  show ?thesis by simp
qed

text \<open>
  Claim C8. Once \<open>Insert\<close> has succeeded and the inserted record maps to a user,
  \<open>Create\<close> returns that user with a nil error whatever the verification step does: a
  failure of \<open>SendEmailVerification\<close> is logged and nothing else; and without a mailer
  nothing happens after \<open>Insert\<close>, which is then the only call in the trace.
\<close>

theorem Create_ignores_send_failure:
  assumes "Create_record rt inp w = (Inr new, w4)"
    and "call (Insert_call new) (Insert (repo s) new) w4 = (Inr r, w5)"
    and "newUserFromRepository r = Inr user"
  shows "fst (Create rt s inp w) = Returns (Inr user)
       \<and> (emailer s = None \<longrightarrow>
            snd (Create rt s inp w) = w5 \<and> trace w5 = trace w @ [Insert_call new])
       \<and> (\<forall>send err w6. emailer s = Some send
            \<and> SendEmailVerification rt s (u_ID user) (u_Username user) (u_Email user) w5
                = (Returns (Some err), w6)
            \<longrightarrow> Create rt s inp w
                = (Returns (Inr user),
                   emit (logger_Error ''could not send email verification'' (u_ID user) err) w6))"
proof -
  have t5: "trace w5 = trace w @ [Insert_call new]"
    using call_trace_eq [OF assms(2)] Create_record_fields [OF assms(1)] by simp
  show ?thesis
    using Create_after_insert(1) [OF assms] Create_after_insert(2) [OF assms]
      Create_after_insert(3) [OF assms] t5
    by blast
qed

text \<open>
  C8 with a mailer that refuses every message, and with no mailer.
\<close>

theorem Create_ignores_send_failure_witness:
  "fst (Create (fake_runtime known_tokens) (fake_service\<lparr>emailer := Some failing_Send\<rparr>)
          jane_input (world_at 0)) = Returns (Inr jane_user)
   \<and> trace (snd (Create (fake_runtime known_tokens) (fake_service\<lparr>emailer := None\<rparr>)
          jane_input (world_at 0))) = [Insert_call jane_record]"
proof -
  let ?rt = "fake_runtime known_tokens"
  let ?w5 = "snd (call (Insert_call jane_record) (Insert fake_repo jane_record) (world_at 2))"
  have i1: "call (Insert_call jane_record)
              (Insert (repo (fake_service\<lparr>emailer := Some failing_Send\<rparr>)) jane_record) (world_at 2)
            = (Inr jane_record, ?w5)"
    by (simp add: fake_service_def fake_repo_def world_simps)
  have i2: "call (Insert_call jane_record)
              (Insert (repo (fake_service\<lparr>emailer := None\<rparr>)) jane_record) (world_at 2)
            = (Inr jane_record, ?w5)"
    by (simp add: fake_service_def fake_repo_def world_simps)
  have u: "newUserFromRepository jane_record = Inr jane_user"
    by (simp add: newUserFromRepository_def jane_record_def jane_def jane_user_def)
  have t: "trace (world_at 0) = []" by (simp add: world_at_def fake_world_def)
  from Create_ignores_send_failure [OF fake_Create_record i1 u]
    Create_ignores_send_failure [OF fake_Create_record i2 u] t
  show ?thesis by simp
qed

section \<open>Properties of the email verification\<close>

text \<open>
  Claim C7, as the code has it. Every call of \<open>SendEmailVerification\<close> hands to the
  repository, as its first call, a record whose code has six characters of the lower-case
  alphanumeric alphabet and whose user id is the given one. Its \<open>createdAt\<close> is one
  reading of the clock, and its \<open>expiresAt\<close> is 24 hours after the next reading, not
  after \<open>createdAt\<close> itself.
\<close>

theorem SendEmailVerification_persists:
  "\<exists>inp rest w1 w2 w3.
     trace (snd (SendEmailVerification rt s userID username to w))
       = trace w @ InsertEmailVerification_call inp # rest
     \<and> length (ev_Code inp) = 6 \<and> set (ev_Code inp) \<subseteq> set chars
     \<and> ev_UserID inp = userID
     \<and> randString rt 6 w = (ev_Code inp, w1)
     \<and> run (time_Now rt) w1 = (ev_CreatedAt inp, w2)
     \<and> run (time_Now rt) w2 = (ev_ExpiresAt inp - hour * 24, w3)"
proof -
  obtain inp w3 where n: "newEmailVerification rt userID w = (inp, w3)"
    by (cases "newEmailVerification rt userID w")
  from SendEmailVerification_trace [OF n] newEmailVerification_record [OF n]
  show ?thesis by blast
qed

text \<open>
  C7 against the test double.
\<close>

theorem SendEmailVerification_persists_witness:
  "\<exists>inp rest.
     trace (snd (SendEmailVerification (fake_runtime known_tokens) fake_service
                   ''id-0'' ''janedoe'' ''jane@example.com'' (world_at 0)))
       = InsertEmailVerification_call inp # rest
     \<and> length (ev_Code inp) = 6 \<and> set (ev_Code inp) \<subseteq> set chars \<and> ev_UserID inp = ''id-0''"
proof -
  have t: "trace (world_at 0) = []" by (simp add: world_at_def fake_world_def)
  from SendEmailVerification_persists
    [of "fake_runtime known_tokens" fake_service "''id-0''" "''janedoe''" "''jane@example.com''"
        "world_at 0"] t
  show ?thesis by auto
qed

text \<open>
  The claim C7 as the spec words it fails when the clock moves between the two readings: with
  a clock that advances by one nanosecond per reading, the record persisted has
  \<open>createdAt = 0\<close> and \<open>expiresAt\<close> one nanosecond past 24 hours.
\<close>

theorem verification_expiry_drifts:
  "f_verifications (ext (snd (SendEmailVerification (fake_runtime known_tokens) fake_service
       ''id-0'' ''janedoe'' ''jane@example.com'' (fake_world [] 0 1))))
     = [\<lparr>ev_Code = ''abc3e9'', ev_UserID = ''id-0'', ev_CreatedAt = 0,
         ev_ExpiresAt = 86400000000001\<rparr>]"
  by (simp add: SendEmailVerification_def newEmailVerification_def fake_randString Let_def
        fake_service_def fake_repo_def fake_Send_def fake_runtime_def fake_Now_def
        world_simps time_simps)

text \<open>
  Claim C10. When the repository accepts the record and the mailer then rejects the message,
  \<open>SendEmailVerification\<close> returns the delivery error; the repository was called before
  the mailer and is not called again, so the record stays persisted. Whatever the three
  string arguments are, the first call is the insertion: nothing validates them before.
\<close>

theorem SendEmailVerification_delivery_failure:
  assumes "newEmailVerification rt userID w = (inp, w3)"
    and "call (InsertEmailVerification_call inp) (InsertEmailVerification (repo s) inp) w3 = (None, w4)"
    and "emailer s = Some send"
    and "call (Send_call (emailVerificationSenderName s) to (verification_body rt s to (ev_Code inp)))
           (send (emailVerificationSenderName s) to (verification_body rt s to (ev_Code inp))) w4
         = (Some err, w5)"
  shows "SendEmailVerification rt s userID username to w
           = (Returns (Some (Errorf_s ''could not send email verification: '' err)), w5)
         \<and> trace w5 = trace w @ [InsertEmailVerification_call inp,
              Send_call (emailVerificationSenderName s) to (verification_body rt s to (ev_Code inp))]
         \<and> (\<forall>u n t. \<exists>inp' rest. trace (snd (SendEmailVerification rt s u n t w))
              = trace w @ InsertEmailVerification_call inp' # rest)"
proof -
  have r: "SendEmailVerification rt s userID username to w
           = (Returns (Some (Errorf_s ''could not send email verification: '' err)), w5)"
    using assms by (simp add: SendEmailVerification_def Let_def)
  have t3: "trace w3 = trace w" using newEmailVerification_record [OF assms(1)] by simp
  have t5: "trace w5 = trace w @ [InsertEmailVerification_call inp,
      Send_call (emailVerificationSenderName s) to (verification_body rt s to (ev_Code inp))]"
    using call_trace_eq [OF assms(2)] call_trace_eq [OF assms(4)] t3 by simp
  have all: "\<exists>inp' rest. trace (snd (SendEmailVerification rt s u n t w))
              = trace w @ InsertEmailVerification_call inp' # rest" for u n t
  proof -
    obtain i v where "newEmailVerification rt u w = (i, v)"
      by (cases "newEmailVerification rt u w")
    from SendEmailVerification_trace [OF this] show ?thesis by blast
  qed
  from r t5 all show ?thesis by blast
qed

text \<open>
  C10 with empty arguments and a mailer that refuses every message: the record is in the store.
\<close>

theorem SendEmailVerification_delivery_failure_witness:
  "fst (SendEmailVerification (fake_runtime known_tokens) (fake_service\<lparr>emailer := Some failing_Send\<rparr>)
          [] [] [] (world_at 0))
     = Returns (Some (Errorf_s ''could not send email verification: '' (errors_New ''connection refused'')))
   \<and> f_verifications (ext (snd (SendEmailVerification (fake_runtime known_tokens)
          (fake_service\<lparr>emailer := Some failing_Send\<rparr>) [] [] [] (world_at 0))))
     = [\<lparr>ev_Code = ''abc3e9'', ev_UserID = [], ev_CreatedAt = 0, ev_ExpiresAt = 86400000000001\<rparr>]"
proof -
  let ?rt = "fake_runtime known_tokens"
  let ?s = "fake_service\<lparr>emailer := Some failing_Send\<rparr>"
  let ?inp = "\<lparr>ev_Code = ''abc3e9'', ev_UserID = [], ev_CreatedAt = 0, ev_ExpiresAt = 86400000000001\<rparr>"
  let ?w3 = "snd (newEmailVerification ?rt [] (world_at 0))"
  let ?w4 = "snd (call (InsertEmailVerification_call ?inp) (InsertEmailVerification (repo ?s) ?inp) ?w3)"
  let ?body = "verification_body ?rt ?s [] (ev_Code ?inp)"
  let ?w5 = "snd (call (Send_call (emailVerificationSenderName ?s) [] ?body)
                 (failing_Send (emailVerificationSenderName ?s) [] ?body) ?w4)"
  have h1: "newEmailVerification ?rt [] (world_at 0) = (?inp, ?w3)"
    by (simp add: newEmailVerification_def fake_randString world_at_def fake_runtime_def
          fake_Now_def world_simps time_simps)
  have h2: "call (InsertEmailVerification_call ?inp) (InsertEmailVerification (repo ?s) ?inp) ?w3
              = (None, ?w4)"
    by (simp add: fake_service_def fake_repo_def world_simps)
  have h3: "emailer ?s = Some failing_Send" by simp
  have h4: "call (Send_call (emailVerificationSenderName ?s) [] ?body)
              (failing_Send (emailVerificationSenderName ?s) [] ?body) ?w4
            = (Some (errors_New ''connection refused''), ?w5)"
    by (simp add: failing_Send_def world_simps)
  have v: "f_verifications (ext ?w5) = [?inp]"
    by (simp add: newEmailVerification_def fake_randString world_at_def fake_runtime_def
          fake_Now_def fake_service_def fake_repo_def failing_Send_def world_simps time_simps)
  from SendEmailVerification_delivery_failure [OF h1 h2 h3 h4, of "[]"] v
  show ?thesis by simp
qed

section \<open>Properties of token issuance and verification\<close>

lemma jwt_Parse_Valid:
  assumes "jwt_Parse rt kf token w = (Inr jt, w1)"
  shows "t_Valid jt"
  using assms
  by (auto simp: jwt_Parse_def Let_def
           split: option.splits json.splits sum.splits prod.splits)

lemma jwt_Parse_Claims:
  assumes "jwt_Parse rt kf token w = (Inr jt, w1)" and "jwt_split rt token = Some parts"
  shows "t_Claims jt = payload parts"
  using assms
  by (auto simp: jwt_Parse_def Let_def
           split: option.splits json.splits sum.splits prod.splits)

lemma VerifyToken_checked:
  assumes "token \<noteq> []"
    and "jwt_Parse rt (keyFunc s) token w = (Inr jt, w1)"
    and "t_Claims jt ''user_id'' = Some (JString uid)"
    and "t_Claims jt ''role'' = Some (JString r)"
    and "t_Claims jt ''exp'' = Some (JNumber e)"
    and "run (time_Now rt) w1 = (now, w2)"
  shows "VerifyToken rt s token w =
           (if Before (time_Unix (float_int64 rt e)) now then (Inl errTokenExpired, w2)
            else (case call (SelectByID_call uid) (SelectByID (repo s) uid) w2 of
                    (Inl err, w3) \<Rightarrow> (Inl (Errorf_s ''could not select user by id: '' err), w3)
                  | (Inr None, w3) \<Rightarrow> (Inl errNotFound, w3)
                  | (Inr (Some u), w3) \<Rightarrow>
                      (Inr \<lparr>v_ID = r_ID u, v_Username = r_Username u, v_Role = r\<rparr>, w3)))"
  using assms jwt_Parse_Valid [OF assms(2)]
  by (simp add: VerifyToken_def)

lemma keyFunc_other:
  assumes "GetSigningMethod a = Some m" and "a \<noteq> ''HS512''"
  shows "\<exists>e. keyFunc s \<lparr>t_Method = m, t_alg = a, t_Claims = c, t_Valid = v\<rparr> = Inl (errors_New e)"
  using assms
  by (auto simp: keyFunc_def GetSigningMethod_def jwtSigningMethod_def
           split: SigningMethod.splits if_splits)

lemma json_Marshal_keys:
  "fst ` set (json_Marshal c) \<subseteq> {''aud'', ''exp'', ''jti'', ''iat'', ''iss'', ''nbf'', ''sub''}"
  by (auto simp: json_Marshal_def Let_def omit_string_def omit_number_def split: if_splits)

lemma json_Marshal_no_user_id: "map_of (json_Marshal c) ''user_id'' = None"
proof -
  have "''user_id'' \<notin> fst ` set (json_Marshal c)"
    using json_Marshal_keys [of c] by auto
  then show ?thesis by (simp add: map_of_eq_None_iff)
qed

lemma issued_payload_never_verifies:
  assumes "jwt_split rt token = Some parts"
    and "payload parts = map_of (json_Marshal c)"
  shows "\<exists>err. fst (VerifyToken rt s token w) = Inl err"
proof (cases "token = []")
  case True
  then show ?thesis by (simp add: VerifyToken_def)
next
  case False
  obtain res w1 where p: "jwt_Parse rt (keyFunc s) token w = (res, w1)"
    by (cases "jwt_Parse rt (keyFunc s) token w")
  show ?thesis
  proof (cases res)
    case (Inl e)
    then show ?thesis using False p by (simp add: VerifyToken_def)
  next
    case (Inr jt)
    have "t_Claims jt ''user_id'' = None"
      using jwt_Parse_Claims [OF p [unfolded Inr] assms(1)] assms(2) json_Marshal_no_user_id
      by simp
    then show ?thesis using False p Inr by (simp add: VerifyToken_def)
  qed
qed

lemma unmarshalled_user_id_missing:
  assumes "token \<noteq> []"
    and "jwt_split rt token = Some parts"
    and "payload parts = map_of (json_Marshal c)"
    and "jwt_Parse rt (keyFunc s) token w = (Inr jt, w1)"
  shows "VerifyToken rt s token w = (Inl (errors_New ''could not find user id in token''), w1)"
proof -
  have "t_Claims jt ''user_id'' = None"
    using jwt_Parse_Claims [OF assms(4) assms(2)] assms(3) json_Marshal_no_user_id by simp
  then show ?thesis
    using assms(1,4) jwt_Parse_Valid [OF assms(4)] by (simp add: VerifyToken_def)
qed

text \<open>
  Claim C1 does not hold of the code. \<open>generateJWT\<close> puts the user id and the role into
  the unexported fields of \<open>jwtClaim\<close>, which the JSON encoding leaves out, so the payload
  of an issued token holds \<open>exp\<close> and \<open>iat\<close> only, and \<open>VerifyToken\<close>
  finds no \<open>user_id\<close> in it. Here the token issued for the stored user \<open>id-0\<close>
  with role \<open>user\<close> is verified at the instant of issue, with the same key.
\<close>

theorem issued_token_rejected:
  "fst (generateJWT (fake_runtime known_tokens) fake_service ''id-0'' ''user''
          (fake_world [jane] (5 * second) 0))
     = Inr (fake_token ''HS512'' issued_claims (fake_mac ''HS512'' issued_claims))
   \<and> fst (VerifyToken (fake_runtime known_tokens) fake_service
            (fake_token ''HS512'' issued_claims (fake_mac ''HS512'' issued_claims))
            (fake_world [jane] (5 * second) 0))
     = Inl (errors_New ''could not find user id in token'')"
  by (simp add: generateJWT_def VerifyToken_def role_validate_def RoleUser_def RoleAdmin_def
        fake_simps world_simps time_simps jwt_simps digits_86405 digits_100)







text \<open>
  Outside the range of the statement above the expiry test of \<open>VerifyToken\<close> follows the
  machine arithmetic. An expiry of \<open>2 ^ 63 - 1024\<close> seconds passes the library, wraps to an
  instant far in the past inside \<^verbatim>\<open>time.Unix\<close>, and the token counts as expired. An
  expiry of 100.5 seconds is cut to 100, so at 100.2 seconds the token counts as expired.
\<close>

lemma digits_far: "digits 9223372036854774784 = ''9223372036854774784''"
  by (simp add: digits.simps)

lemma far_future_expiry_wraps:
  "fst (VerifyToken (fake_runtime edge_tokens) fake_service
          (fake_token ''HS512'' far_claims (fake_mac ''HS512'' far_claims))
          (fake_world [jane] (100 * second) 0))
     = Inl errTokenExpired"
  by (simp add: VerifyToken_def fake_simps far_claims_def half_claims_def edge_tokens_def
        world_simps time_simps jwt_simps digits_far digits_100)

lemma floor_half: "\<lfloor>(201::rat) / 2\<rfloor> = 100"
  by (rule floor_unique) simp_all

lemma fractional_expiry_truncated:
  "fst (VerifyToken (fake_runtime edge_tokens) fake_service
          (fake_token ''HS512'' half_claims (fake_mac ''HS512'' half_claims))
          (fake_world [jane] (100 * second + 200000000) 0))
     = Inl errTokenExpired"
  by (simp add: VerifyToken_def fake_simps far_claims_def half_claims_def edge_tokens_def
        world_simps time_simps jwt_simps digits_far digits_100 floor_half)

text \<open>
  A token that expired a second or more ago does not reach the check of \<open>VerifyToken\<close>:
  the library rejects it and the service reports a parse error.
\<close>

lemma long_expired_token_parse_error:
  "fst (VerifyToken (fake_runtime known_tokens) fake_service
          (fake_token ''HS512'' admin_claims (fake_mac ''HS512'' admin_claims))
          (fake_world [jane] (time_Unix 101) 0))
     = Inl (Errorf_s ''could not parse token: '' (ValidationError (errors_New ''Token is expired'')))"
  by (simp add: VerifyToken_def fake_simps world_simps time_simps jwt_simps digits_86405 digits_100)

text \<open>
  Claim C3, as the code has it. With a stored user's email and a password that does not match
  the stored hash, \<open>GenerateToken\<close> fails with \<open>errPasswordInvalid\<close>; with an
  email that belongs to no user it fails with \<open>errNotFound\<close>. The two errors are
  different values.
\<close>

theorem GenerateToken_failures:
  assumes "validate_Email rt email = None"
    and "validate_Email rt email' = None"
    and "validate_Password rt password = None"
    and "call (SelectByEmail_call email) (SelectByEmail (repo s) email) w = (Inr (Some storageUser), w1)"
    and "bcrypt_CompareHashAndPassword rt (r_PasswordHash storageUser) password = Some err"
    and "call (SelectByEmail_call email') (SelectByEmail (repo s) email') w = (Inr None, w1')"
  shows "GenerateToken rt s email password w = (Inl errPasswordInvalid, w1)
       \<and> GenerateToken rt s email' password w = (Inl errNotFound, w1')
       \<and> errPasswordInvalid \<noteq> errNotFound"
  using assms by (simp add: GenerateToken_def)

text \<open>
  C3 against the test double.
\<close>

theorem GenerateToken_failures_witness:
  "fst (GenerateToken (fake_runtime known_tokens) fake_service ''jane@example.com'' ''letmein''
          (fake_world [jane] 7 1)) = Inl errPasswordInvalid
   \<and> fst (GenerateToken (fake_runtime known_tokens) fake_service ''joe@example.com'' ''letmein''
          (fake_world [jane] 7 1)) = Inl errNotFound"
proof -
  let ?rt = "fake_runtime known_tokens"
  let ?w = "fake_world [jane] 7 1"
  let ?w1 = "emit (SelectByEmail_call ''jane@example.com'') ?w"
  let ?w2 = "emit (SelectByEmail_call ''joe@example.com'') ?w"
  have h1: "validate_Email ?rt ''jane@example.com'' = None" by (simp add: fake_simps)
  have h2: "validate_Email ?rt ''joe@example.com'' = None" by (simp add: fake_simps)
  have h3: "validate_Password ?rt ''letmein'' = None" by (simp add: fake_simps)
  have h4: "call (SelectByEmail_call ''jane@example.com'')
              (SelectByEmail (repo fake_service) ''jane@example.com'') ?w = (Inr (Some jane), ?w1)"
    by (simp add: fake_simps world_simps)
  have h5: "bcrypt_CompareHashAndPassword ?rt (r_PasswordHash jane) ''letmein''
              = Some (errors_New ''hash mismatch'')"
    by (simp add: fake_simps)
  have h6: "call (SelectByEmail_call ''joe@example.com'')
              (SelectByEmail (repo fake_service) ''joe@example.com'') ?w = (Inr None, ?w2)"
    by (simp add: fake_simps world_simps)
  from GenerateToken_failures [OF h1 h2 h3 h4 h5 h6] show ?thesis by simp
qed

text \<open>
  The claim C3 as the spec words it fails: the wrong password and the unknown email give
  different errors.
\<close>

theorem wrong_password_differs_from_unknown_email:
  "fst (GenerateToken (fake_runtime known_tokens) fake_service ''jane@example.com'' ''wrong''
          (fake_world [jane] 0 0)) = Inl errPasswordInvalid
   \<and> fst (GenerateToken (fake_runtime known_tokens) fake_service ''nobody@example.com'' ''wrong''
          (fake_world [jane] 0 0)) = Inl errNotFound"
  by (simp add: GenerateToken_def fake_simps world_simps)

text \<open>
  Claim C5, as the code has it. A token whose header names an algorithm other than
  \<open>HS512\<close> is rejected before any claim is read and before any repository call, with the
  parse error of the library wrapped in text; the error is not \<open>errTokenInvalid\<close>.
\<close>

theorem VerifyToken_other_algorithm:
  assumes "token \<noteq> []"
    and "jwt_split rt token = Some parts"
    and "hdr_alg parts = Some (JString a)"
    and "a \<noteq> ''HS512''"
  shows "\<exists>e. VerifyToken rt s token w
             = (Inl (Errorf_s ''could not parse token: '' (ValidationError (errors_New e))), w)"
proof (cases "GetSigningMethod a")
  case None
  then show ?thesis
    using assms by (simp add: VerifyToken_def jwt_Parse_def)
next
  case (Some m)
  from keyFunc_other [OF Some assms(4)] obtain e where
    "keyFunc s \<lparr>t_Method = m, t_alg = a, t_Claims = payload parts, t_Valid = False\<rparr> = Inl (errors_New e)"
    by blast
  then show ?thesis
    using assms Some by (simp add: VerifyToken_def jwt_Parse_def Let_def)
qed

text \<open>
  C5 for a token signed with \<open>HS256\<close> under the service's key.
\<close>

theorem VerifyToken_other_algorithm_witness:
  "\<exists>e. VerifyToken (fake_runtime known_tokens) fake_service
          (fake_token ''HS256'' admin_claims (fake_mac ''HS256'' admin_claims))
          (fake_world [jane] 0 0)
        = (Inl (Errorf_s ''could not parse token: '' (ValidationError (errors_New e))),
           fake_world [jane] 0 0)"
proof -
  let ?rt = "fake_runtime known_tokens"
  let ?tok = "fake_token ''HS256'' admin_claims (fake_mac ''HS256'' admin_claims)"
  let ?parts = "\<lparr>hdr_alg = Some (JString ''HS256''), payload = map_of admin_claims,
                 signing_input = fake_SigningString ''HS256'' admin_claims,
                 signature = fake_mac ''HS256'' admin_claims\<rparr>"
  have h1: "?tok \<noteq> []" by (simp add: fake_simps)
  have h2: "jwt_split ?rt ?tok = Some ?parts"
    by (simp add: fake_simps digits_100 digits_86405)
  have h3: "hdr_alg ?parts = Some (JString ''HS256'')" by simp
  have h4: "''HS256'' \<noteq> ''HS512''" by simp
  from VerifyToken_other_algorithm [OF h1 h2 h3 h4] show ?thesis .
qed

text \<open>
  The claim C5 as the spec words it fails: for a well-formed token with the algorithm
  \<open>none\<close> the error is the wrapped parse error, not \<open>errTokenInvalid\<close>.
\<close>

theorem none_algorithm_error:
  "fst (VerifyToken (fake_runtime known_tokens) fake_service
          (fake_token ''none'' admin_claims [])
          (fake_world [jane] 0 0))
     = Inl (Errorf_s ''could not parse token: ''
              (ValidationError (errors_New ''unexpected signing method: none'')))"
  by (simp add: VerifyToken_def fake_simps world_simps time_simps jwt_simps digits_86405 digits_100)

text \<open>
  Claim C9. For a token that parses, passes the signature and expiry checks and carries the
  claims, the outcome is that of the lookup by the token's user id: \<open>errNotFound\<close> when
  there is no record; otherwise a response whose id and username are those of the fetched
  record and whose role is the role of the token.
\<close>

theorem VerifyToken_lookup:
  assumes "token \<noteq> []"
    and "jwt_Parse rt (keyFunc s) token w = (Inr jt, w1)"
    and "t_Claims jt ''user_id'' = Some (JString uid)"
    and "t_Claims jt ''role'' = Some (JString r)"
    and "t_Claims jt ''exp'' = Some (JNumber e)"
    and "run (time_Now rt) w1 = (now, w2)"
    and "\<not> Before (time_Unix (float_int64 rt e)) now"
    and "call (SelectByID_call uid) (SelectByID (repo s) uid) w2 = (Inr found, w3)"
  shows "VerifyToken rt s token w =
           (case found of
              None \<Rightarrow> (Inl errNotFound, w3)
            | Some u \<Rightarrow> (Inr \<lparr>v_ID = r_ID u, v_Username = r_Username u, v_Role = r\<rparr>, w3))"
  using VerifyToken_checked [OF assms(1-6)] assms(7,8)
  by (simp split: option.splits)

text \<open>
  C9 with a token that says \<open>admin\<close> for a user stored with role \<open>user\<close>, and
  with an empty repository.
\<close>

theorem VerifyToken_lookup_witness:
  "fst (VerifyToken (fake_runtime known_tokens) fake_service
          (fake_token ''HS512'' admin_claims (fake_mac ''HS512'' admin_claims))
          (fake_world [jane] (time_Unix 50) 0))
     = Inr \<lparr>v_ID = ''id-0'', v_Username = ''janedoe'', v_Role = ''admin''\<rparr>
   \<and> r_Role jane = ''user''
   \<and> fst (VerifyToken (fake_runtime known_tokens) fake_service
          (fake_token ''HS512'' admin_claims (fake_mac ''HS512'' admin_claims))
          (fake_world [] (time_Unix 50) 0))
     = Inl errNotFound"
proof -
  let ?rt = "fake_runtime known_tokens"
  let ?tok = "fake_token ''HS512'' admin_claims (fake_mac ''HS512'' admin_claims)"
  let ?jt = "\<lparr>t_Method = SigningMethodHMAC ''HS512'', t_alg = ''HS512'',
              t_Claims = map_of admin_claims, t_Valid = True\<rparr>"
  have h1: "?tok \<noteq> []" by (simp add: fake_simps)
  have h2: "jwt_Parse ?rt (keyFunc fake_service) ?tok (fake_world us (time_Unix 50) 0)
              = (Inr ?jt, fake_world us (time_Unix 50) 0)" for us
    by (simp add: fake_simps world_simps time_simps jwt_simps digits_100 digits_86405)
  have h3: "t_Claims ?jt ''user_id'' = Some (JString ''id-0'')" by (simp add: admin_claims_def)
  have h4: "t_Claims ?jt ''role'' = Some (JString ''admin'')" by (simp add: admin_claims_def)
  have h5: "t_Claims ?jt ''exp'' = Some (JNumber 100)" by (simp add: admin_claims_def)
  have h6: "run (time_Now ?rt) (fake_world us (time_Unix 50) 0)
              = (time_Unix 50, fake_world us (time_Unix 50) 0)" for us
    by (simp add: fake_simps world_simps)
  have h7: "\<not> Before (time_Unix (float_int64 ?rt 100)) (time_Unix 50)" by (simp add: time_simps)
  have h8: "call (SelectByID_call ''id-0'') (SelectByID (repo fake_service) ''id-0'')
              (fake_world [jane] (time_Unix 50) 0)
            = (Inr (Some jane), emit (SelectByID_call ''id-0'') (fake_world [jane] (time_Unix 50) 0))"
    by (simp add: fake_simps world_simps)
  have h9: "call (SelectByID_call ''id-0'') (SelectByID (repo fake_service) ''id-0'')
              (fake_world [] (time_Unix 50) 0)
            = (Inr None, emit (SelectByID_call ''id-0'') (fake_world [] (time_Unix 50) 0))"
    by (simp add: fake_simps world_simps)
  from VerifyToken_lookup [OF h1 h2 h3 h4 h5 h6 h7 h8] VerifyToken_lookup [OF h1 h2 h3 h4 h5 h6 h7 h9]
  show ?thesis by (simp add: jane_def)
qed

end
